theory Spec2Isabelle
  imports Complex_Main "HOL-Library.Word"
begin

unbundle bit_operations_syntax

section \<open>The TRK streamlines codec of nibabel (\<open>nibabel/streamlines/trk.py\<close>)\<close>

text \<open>
  A shallow embedding of \<open>TrkReader\<close>, \<open>TrkWriter\<close> and \<open>TrkFile\<close>.

  \<^item> A file-like object is a byte list with a cursor. \<open>Opener(fileobj)\<close> on an object that
    is already open wraps it and leaves it open, so the cursor is shared by all calls; that
    is the case modelled here.
  \<^item> Python exceptions are values of \<open>error\<close>; a function that can raise returns
    \<open>error + 'a\<close>.
  \<^item> float32 values are read from their IEEE-754 bit patterns into \<open>rat\<close>; arithmetic on
    them is exact (rounding, infinities and NaN are outside the model).
  \<^item> \<open>native_code\<close> and \<open>swapped_code\<close> come from \<open>nibabel.volumeutils\<close>: the byte order
    of the machine is a parameter \<open>native\<close> of the decoder.
\<close>

subsection \<open>Exceptions\<close>

datatype error =
    HeaderError          \<comment> \<open>\<open>base_format.HeaderError\<close>\<close>
  | DataError            \<comment> \<open>\<open>base_format.DataError\<close>\<close>
  | StructError          \<comment> \<open>\<open>struct.error\<close>: \<open>struct.unpack\<close> on a buffer of the wrong size\<close>
  | BufferTooSmall       \<comment> \<open>\<open>TypeError\<close> of \<open>np.ndarray(..., buffer=...)\<close>: buffer is too small\<close>
  | StringTooSmall       \<comment> \<open>\<open>ValueError\<close> of \<open>np.fromstring(..., count=...)\<close>: string is smaller than requested\<close>
  | ValueError           \<comment> \<open>any other \<open>ValueError\<close> of numpy (shapes, negative dimensions)\<close>
  | ZeroDivisionError
  | KeyError
  | OSError              \<comment> \<open>seek to a negative offset\<close>

subsection \<open>File-like objects\<close>

type_synonym byte = "8 word"

record fileobj =
  content :: "byte list"
  pos :: nat

text \<open>\<open>f.read(n)\<close>: at most \<open>n\<close> bytes from the cursor; everything that is left when \<open>n < 0\<close>.\<close>

definition f_read :: "int \<Rightarrow> fileobj \<Rightarrow> byte list \<times> fileobj" where
  "f_read n f =
     (let rest = drop (pos f) (content f);
          got = (if n < 0 then rest else take (nat n) rest)
      in (got, f\<lparr>pos := pos f + length got\<rparr>))"

definition f_tell :: "fileobj \<Rightarrow> nat" where
  "f_tell f = pos f"

text \<open>\<open>f.seek(off, os.SEEK_SET)\<close> and \<open>f.seek(off, os.SEEK_CUR)\<close>; a file refuses a negative target.\<close>

definition f_seek_set :: "int \<Rightarrow> fileobj \<Rightarrow> error + fileobj" where
  "f_seek_set off f = (if off < 0 then Inl OSError else Inr (f\<lparr>pos := nat off\<rparr>))"

definition f_seek_cur :: "int \<Rightarrow> fileobj \<Rightarrow> error + fileobj" where
  "f_seek_cur off f =
     (if int (pos f) + off < 0 then Inl OSError else Inr (f\<lparr>pos := nat (int (pos f) + off)\<rparr>))"

subsection \<open>Constants of \<open>TrkFile\<close>\<close>

definition MAGIC_NUMBER :: "byte list" where
  "MAGIC_NUMBER = [0x54, 0x52, 0x41, 0x43, 0x4B]"  \<comment> \<open>\<open>b"TRACK"\<close>\<close>

definition HEADER_SIZE :: int where
  "HEADER_SIZE = 1000"

subsection \<open>\<open>TrkFile.is_correct_format\<close>\<close>

definition is_correct_format :: "fileobj \<Rightarrow> error + (bool \<times> fileobj)" where
  "is_correct_format f =
     (let (magic_number, f1) = f_read 5 f
      in case f_seek_cur (- 5) f1 of
           Inl e \<Rightarrow> Inl e
         | Inr f2 \<Rightarrow> Inr (magic_number = MAGIC_NUMBER, f2))"

subsection \<open>Decoding numbers\<close>

datatype endian = Little | Big

fun swapped :: "endian \<Rightarrow> endian" where
  "swapped Little = Big"
| "swapped Big = Little"

text \<open>The value of a byte string read as a little-endian unsigned number.\<close>

fun le_word :: "byte list \<Rightarrow> 'a::len word" where
  "le_word [] = 0"
| "le_word (b # bs) = ucast b + 256 * le_word bs"

definition to_word :: "endian \<Rightarrow> byte list \<Rightarrow> 'a::len word" where
  "to_word e bs = le_word (case e of Little \<Rightarrow> bs | Big \<Rightarrow> rev bs)"

definition i2 :: "endian \<Rightarrow> byte list \<Rightarrow> int" where
  "i2 e bs = sint (to_word e bs :: 16 word)"

definition i4 :: "endian \<Rightarrow> byte list \<Rightarrow> int" where
  "i4 e bs = sint (to_word e bs :: 32 word)"

text \<open>The value of a finite IEEE-754 single: sign, 8 bits of exponent, 23 bits of fraction.\<close>

definition f4_value :: "32 word \<Rightarrow> rat" where
  "f4_value w =
     (let e = unat (drop_bit 23 w AND 0xFF);
          m = unat (w AND 0x7FFFFF);
          mag = (if e = 0 then of_nat m / 2 ^ 149
                 else if e < 150 then of_nat (2 ^ 23 + m) / 2 ^ (150 - e)
                 else of_nat (2 ^ 23 + m) * 2 ^ (e - 150))
      in if bit w 31 then - mag else mag)"

definition f4 :: "endian \<Rightarrow> byte list \<Rightarrow> rat" where
  "f4 e bs = f4_value (to_word e bs)"

text \<open>Cut a byte string into items of \<open>n\<close> bytes; an incomplete last item is dropped.\<close>

fun chunks :: "nat \<Rightarrow> nat \<Rightarrow> byte list \<Rightarrow> byte list list" where
  "chunks n 0 bs = []"
| "chunks n (Suc k) bs = take n bs # chunks n k (drop n bs)"

text \<open>A numpy \<open>S\<close> field read as a scalar loses its trailing NUL bytes.\<close>

definition S_value :: "byte list \<Rightarrow> byte list" where
  "S_value bs = rev (dropWhile (\<lambda>b. b = 0) (rev bs))"

subsection \<open>The header: \<open>header_1_dtype\<close> and \<open>header_2_dtype\<close>\<close>

text \<open>
  Both layouts are packed records of 1000 bytes. Version 2 holds the 4x4 matrix
  \<open>to_world_space\<close> at offset 440, where version 1 has reserved bytes; every other field
  has the same offset in both. The header is kept as the dictionary \<open>self.header\<close> of the
  reader: the numeric fields and the two \<open>S\<close> fields the code reads. The name labels,
  the reserved and padding bytes and the one-byte flags are byte strings that no function
  of this module inspects, and they are left out.
\<close>

datatype header_dtype = header_1_dtype | header_2_dtype

record trk_header =
  magic_number :: "byte list"
  dimensions :: "int list"
  voxel_sizes :: "rat list"
  origin :: "rat list"
  nb_scalars_per_point :: int
  nb_properties_per_streamline :: int
  to_world_space :: "rat list option"   \<comment> \<open>16 values, row by row; no such key in version 1\<close>
  voxel_order :: "byte list"
  image_orientation_patient :: "rat list"
  nb_streamlines :: int
  version :: int
  hdr_size :: int

definition field :: "nat \<Rightarrow> nat \<Rightarrow> byte list \<Rightarrow> byte list" where
  "field off n s = take n (drop off s)"

text \<open>
  \<open>dict(zip(header_rec.dtype.names, header_rec[0]))\<close> for a record read with byte order
  \<open>e\<close>; \<open>header_rec[0].newbyteorder()\<close> is the same record read with the other byte order.
\<close>

definition header_dict :: "header_dtype \<Rightarrow> endian \<Rightarrow> byte list \<Rightarrow> trk_header" where
  "header_dict d e s =
     \<lparr> magic_number = S_value (field 0 6 s),
       dimensions = map (i2 e) (chunks 2 3 (field 6 6 s)),
       voxel_sizes = map (f4 e) (chunks 4 3 (field 12 12 s)),
       origin = map (f4 e) (chunks 4 3 (field 24 12 s)),
       nb_scalars_per_point = i2 e (field 36 2 s),
       nb_properties_per_streamline = i2 e (field 238 2 s),
       to_world_space =
         (case d of header_1_dtype \<Rightarrow> None
                  | header_2_dtype \<Rightarrow> Some (map (f4 e) (chunks 4 16 (field 440 64 s)))),
       voxel_order = S_value (field 948 4 s),
       image_orientation_patient = map (f4 e) (chunks 4 6 (field 956 24 s)),
       nb_streamlines = i4 e (field 988 4 s),
       version = i4 e (field 992 4 s),
       hdr_size = i4 e (field 996 4 s) \<rparr>"

subsection \<open>\<open>TrkReader.__init__\<close>\<close>

record TrkReader =
  header :: trk_header
  endianness :: endian
  offset_data :: nat
  warned :: bool      \<comment> \<open>a \<open>HeaderWarning\<close> was issued for an empty voxel order\<close>

definition LPS :: "byte list" where
  "LPS = [0x4C, 0x50, 0x53]"

text \<open>
  \<open>np.fromstring\<close> needs a whole record: it raises \<open>ValueError\<close> on an incomplete one, and
  returns an empty array on an empty string, whose version test is false on both sides.
\<close>

definition TrkReader_init :: "endian \<Rightarrow> fileobj \<Rightarrow> error + (TrkReader \<times> fileobj)" where
  "TrkReader_init native f =
     (let (header_str, f1) = f_read 1000 f
      in if header_str = [] then Inl HeaderError
         else if length header_str \<noteq> 1000 then Inl ValueError
         else
           let v = version (header_dict header_2_dtype native header_str)
           in if v \<noteq> 1 \<and> v \<noteq> 2 then Inl HeaderError
              else
                let d = (if v = 1 then header_1_dtype else header_2_dtype);
                    h = header_dict d native header_str;
                    h_swapped = header_dict d (swapped native) header_str
                in if hdr_size h \<noteq> HEADER_SIZE \<and> hdr_size h_swapped \<noteq> HEADER_SIZE
                   then Inl HeaderError
                   else
                     let (e, h1) = (if hdr_size h \<noteq> HEADER_SIZE then (swapped native, h_swapped)
                                    else (native, h));
                         w = (voxel_order h1 = []);
                         h2 = (if w then h1\<lparr>voxel_order := LPS\<rparr> else h1)
                     in Inr (\<lparr> header = h2, endianness = e, offset_data = f_tell f1,
                              warned = w \<rparr>, f1))"

subsection \<open>\<open>TrkReader.__iter__\<close>\<close>

text \<open>A yielded triple: points, scalars and properties; arrays are lists of rows.\<close>

type_synonym streamline = "rat list list \<times> rat list list \<times> rat list"

text \<open>\<open>np.ndarray(shape=(n, w), buffer=...)\<close> over the items of the buffer.\<close>

definition ndarray :: "nat \<Rightarrow> nat \<Rightarrow> 'a list \<Rightarrow> 'a list list" where
  "ndarray n w xs = map (\<lambda>i. take w (drop (i * w) xs)) [0..<n]"

definition read_pts_and_scalars ::
  "TrkReader \<Rightarrow> int \<Rightarrow> fileobj \<Rightarrow> error + ((rat list list \<times> rat list list) \<times> fileobj)" where
  "read_pts_and_scalars r nb_pts f =
     (let S = nb_scalars_per_point (header r);
          nb_pts_and_scalars = 3 + S;
          pts_and_scalars_size = nb_pts_and_scalars * 4;
          (buf, f1) = f_read (nb_pts * pts_and_scalars_size) f
      in if nb_pts < 0 \<or> nb_pts_and_scalars < 0 then Inl ValueError
         else if int (length buf) < nb_pts * pts_and_scalars_size then Inl BufferTooSmall
         else
           let items = map (f4 (endianness r))
                           (chunks 4 (nat (nb_pts * nb_pts_and_scalars)) buf);
               data = ndarray (nat nb_pts) (nat nb_pts_and_scalars) items
           in Inr (if S > 0 then (map (take 3) data, map (drop 3) data) else (data, []), f1))"

definition read_properties :: "TrkReader \<Rightarrow> fileobj \<Rightarrow> error + (rat list \<times> fileobj)" where
  "read_properties r f =
     (let P = nb_properties_per_streamline (header r)
      in if P > 0 then
           (let (buf, f1) = f_read (P * 4) f
            in if int (length buf) < P * 4 then Inl StringTooSmall
               else Inr (map (f4 (endianness r)) (chunks 4 (nat P) buf), f1))
         else Inr ([], f))"

text \<open>
  \<open>pts / voxel_sizes\<close> broadcasts an array of \<open>w\<close> columns against the three voxel sizes:
  three columns divide elementwise, one column is repeated, anything else is a
  \<open>ValueError\<close>. Then \<open>pts -= voxel_sizes / 2\<close>.
\<close>

definition voxmm_to_vox :: "rat list \<Rightarrow> int \<Rightarrow> rat list list \<Rightarrow> error + rat list list" where
  "voxmm_to_vox vs w pts =
     (if w = 3 then
        Inr (map (\<lambda>row. map2 (-) (map2 (/) row vs) (map (\<lambda>v. v / 2) vs)) pts)
      else if w = 1 then
        Inr (map (\<lambda>row. map2 (-) (map (\<lambda>v. hd row / v) vs) (map (\<lambda>v. v / 2) vs)) pts)
      else Inl ValueError)"

text \<open>One turn of the loop after the count field was read and found not empty.\<close>

definition read_streamline ::
  "TrkReader \<Rightarrow> byte list \<Rightarrow> fileobj \<Rightarrow> error + (streamline \<times> fileobj)" where
  "read_streamline r nb_pts_str f =
     (if length nb_pts_str \<noteq> 4 then Inl StructError
      else
        let nb_pts = i4 (endianness r) nb_pts_str;
            S = nb_scalars_per_point (header r)
        in case read_pts_and_scalars r nb_pts f of
             Inl e \<Rightarrow> Inl e
           | Inr ((pts, scalars), f1) \<Rightarrow>
               (case read_properties r f1 of
                  Inl e \<Rightarrow> Inl e
                | Inr (properties, f2) \<Rightarrow>
                    (case voxmm_to_vox (voxel_sizes (header r)) (if S > 0 then 3 else 3 + S) pts of
                       Inl e \<Rightarrow> Inl e
                     | Inr pts' \<Rightarrow> Inr ((pts', scalars, properties), f2))))"

text \<open>
  The reads of one turn leave the bytes of the file alone and never move the cursor
  backwards; the loop below terminates for that reason.
\<close>

lemma f_read_content: "content (snd (f_read n f)) = content f"
  by (simp add: f_read_def Let_def)

lemma f_read_pos: "pos (snd (f_read n f)) = pos f + length (fst (f_read n f))"
  by (simp add: f_read_def Let_def)

lemma read_pts_and_scalars_file:
  "read_pts_and_scalars r n f = Inr (x, f') \<Longrightarrow> content f' = content f \<and> pos f \<le> pos f'"
  by (auto simp: read_pts_and_scalars_def f_read_def Let_def split: if_splits prod.splits)

lemma read_properties_file:
  "read_properties r f = Inr (x, f') \<Longrightarrow> content f' = content f \<and> pos f \<le> pos f'"
  by (auto simp: read_properties_def f_read_def Let_def split: if_splits prod.splits)

lemma read_streamline_file:
  "read_streamline r s f = Inr (x, f') \<Longrightarrow> content f' = content f \<and> pos f \<le> pos f'"
  unfolding read_streamline_def
  by (auto simp: Let_def split: if_splits sum.splits prod.splits
        dest!: read_pts_and_scalars_file read_properties_file)

lemma read_streamline_count: "read_streamline r s f = Inr (x, f') \<Longrightarrow> length s = 4"
  by (auto simp: read_streamline_def split: if_splits)

text \<open>
  The \<open>while i < nb_streamlines\<close> loop. \<open>nb\<close> is \<open>None\<close> for \<open>np.inf\<close>. The result is
  the list of triples yielded so far and either the exception that ended the generator
  or the counter and the file at the end of the loop.
\<close>

function iter_loop ::
  "TrkReader \<Rightarrow> int option \<Rightarrow> nat \<Rightarrow> fileobj \<Rightarrow> streamline list
     \<Rightarrow> streamline list \<times> (error + nat \<times> fileobj)" where
  "iter_loop r nb i f acc =
     (if (case nb of None \<Rightarrow> True | Some n \<Rightarrow> int i < n) then
        (if fst (f_read 4 f) = [] then (acc, Inr (i, snd (f_read 4 f)))
         else case read_streamline r (fst (f_read 4 f)) (snd (f_read 4 f)) of
                Inl e \<Rightarrow> (acc, Inl e)
              | Inr (s, f2) \<Rightarrow> iter_loop r nb (i + 1) f2 (acc @ [s]))
      else (acc, Inr (i, f)))"
  by pat_completeness auto
termination
proof (relation "measure (\<lambda>(r, nb, i, f, acc). length (content f) - pos f)", goal_cases)
  case 1
  show ?case by simp
next
  case (2 r nb i f acc x2 x y)
  from 2(3,4) have fl: "content y = content f \<and> pos (snd (f_read 4 f)) \<le> pos y"
    using read_streamline_file [of r "fst (f_read 4 f)" "snd (f_read 4 f)" x y]
    by (simp add: f_read_content)
  from 2(3,4) have "length (fst (f_read 4 f)) = 4"
    using read_streamline_count by blast
  then have "pos f + 4 \<le> length (content f)" "pos (snd (f_read 4 f)) = pos f + 4"
    by (auto simp: f_read_def Let_def split: if_splits)
  with fl show ?case by (simp, arith)
qed

declare iter_loop.simps [simp del]

text \<open>
  The whole generator, run to its end. The last two statements are the update of the
  header's count and \<open>f.seek(start_position, os.SEEK_CUR)\<close>.
\<close>

definition TrkReader_iter ::
  "TrkReader \<Rightarrow> fileobj \<Rightarrow> streamline list \<times> (error + TrkReader \<times> fileobj)" where
  "TrkReader_iter r f =
     (let start_position = f_tell f
      in case f_seek_set (int (offset_data r)) f of
           Inl e \<Rightarrow> ([], Inl e)
         | Inr f1 \<Rightarrow>
             (let n = nb_streamlines (header r);
                  nb = (if n = 0 then None else Some n)
              in (case iter_loop r nb 0 f1 [] of
                    (ys, Inl e) \<Rightarrow> (ys, Inl e)
                  | (ys, Inr (i, f2)) \<Rightarrow>
                      (let r' = r\<lparr>header := (header r)\<lparr>nb_streamlines := int i\<rparr>\<rparr>
                       in (case f_seek_cur (int start_position) f2 of
                             Inl e \<Rightarrow> (ys, Inl e)
                           | Inr f3 \<Rightarrow> (ys, Inr (r', f3)))))))"

subsection \<open>\<open>TrkFile.load\<close>\<close>

text \<open>
  Modelled from the spec: the container classes \<open>Streamlines\<close> and \<open>LazyStreamlines\<close> of
  \<open>nibabel.streamlines.base_format\<close> are not among the sources. The container holds the
  point arrays, the per-point scalars, the per-streamline properties and header metadata;
  of the metadata only what \<open>load\<close> assigns is kept. A lazy container holds no data:
  it would run the generator when iterated.
\<close>

record Streamlines =
  points :: "rat list list list"
  scalars :: "rat list list list"
  properties :: "rat list list"
  deferred :: bool
  header_to_world_space :: "rat list"
  header_nb_streamlines :: "int option"
  header_extra :: trk_header

text \<open>
  \<open>ref\<close> stands for the affine that \<open>get_affine_from_reference(ref)\<close> returns, and
  \<open>allclose\<close> for \<open>np.allclose\<close>; both are outside this module. Looking up
  \<open>trk_reader.header[Field.to_world_space]\<close> raises \<open>KeyError\<close> when the dictionary has
  no such key. The mismatch of the reference space is a \<open>ValueError\<close>.
\<close>

definition TrkFile_load ::
  "endian \<Rightarrow> (rat list \<Rightarrow> rat list \<Rightarrow> bool) \<Rightarrow> fileobj \<Rightarrow> rat list option \<Rightarrow> bool
     \<Rightarrow> error + (Streamlines \<times> TrkReader \<times> fileobj)" where
  "TrkFile_load native allclose fileobj ref lazy_load =
     (case TrkReader_init native fileobj of
        Inl e \<Rightarrow> Inl e
      | Inr (trk_reader, f1) \<Rightarrow>
          (case to_world_space (header trk_reader) of
             None \<Rightarrow> Inl KeyError
           | Some a \<Rightarrow>
               (if (case ref of None \<Rightarrow> False | Some ra \<Rightarrow> \<not> allclose ra a)
                then Inl ValueError
                else
                  (let affine = (case ref of None \<Rightarrow> a | Some ra \<Rightarrow> ra);
                       count = (\<lambda>r. if nb_streamlines (header r) > 0
                                     then Some (nb_streamlines (header r)) else None)
                   in if lazy_load then
                        Inr (\<lparr> points = [], scalars = [], properties = [], deferred = True,
                               header_to_world_space = affine,
                               header_nb_streamlines = count trk_reader,
                               header_extra = header trk_reader \<rparr>, trk_reader, f1)
                      else
                        (case TrkReader_iter trk_reader f1 of
                           (ys, Inl e) \<Rightarrow> Inl e
                         | (ys, Inr (r', f2)) \<Rightarrow>
                             Inr (\<lparr> points = map fst ys,
                                    scalars = (if nb_scalars_per_point (header r') = 0 then []
                                               else map (fst \<circ> snd) ys),
                                    properties =
                                      (if nb_properties_per_streamline (header r') = 0 then []
                                       else map (snd \<circ> snd) ys),
                                    deferred = False,
                                    header_to_world_space = affine,
                                    header_nb_streamlines = count r',
                                    header_extra = header r' \<rparr>, r', f2))))))"

subsection \<open>\<open>TrkWriter\<close>\<close>

text \<open>\<open>create_empty_header\<close>: a zeroed version-2 record with the default values set.\<close>

definition create_empty_header :: trk_header where
  "create_empty_header =
     \<lparr> magic_number = MAGIC_NUMBER, dimensions = [1, 1, 1], voxel_sizes = [1, 1, 1],
       origin = [0, 0, 0], nb_scalars_per_point = 0, nb_properties_per_streamline = 0,
       to_world_space = Some [1, 0, 0, 0, 0, 1, 0, 0, 0, 0, 1, 0, 0, 0, 0, 1],
       voxel_order = [], image_orientation_patient = [0, 0, 0, 0, 0, 0],
       nb_streamlines = 0, version = 2, hdr_size = HEADER_SIZE \<rparr>"

text \<open>
  Modelled from the spec: the header object of the container that \<open>TrkWriter.__init__\<close>
  reads (its class is not among the sources), with the attributes the writer uses.
  \<open>extra\<close> is the dictionary of format-specific fields: empty, or the header dictionary
  a reader produced.
\<close>

record StreamlinesHeader =
  extra :: "trk_header option"
  hdr_nb_streamlines :: "int option"
  hdr_nb_scalars_per_point :: int
  hdr_nb_properties_per_streamline :: int
  hdr_voxel_sizes :: "rat list"
  hdr_to_world_space :: "rat list"
  hdr_voxel_order :: "byte list"

text \<open>
  The output file is kept as what it holds: the header record stored at \<open>beginning\<close>
  (a header is always 1000 bytes, so writing one there replaces the one before) and
  the records appended after it, each as its count, its rows of coordinates and scalars,
  and its properties.
\<close>

record outfile =
  file_header :: "trk_header option"
  file_data :: "(int \<times> rat list list \<times> rat list) list"

record TrkWriter =
  writer_header :: trk_header
  writer_nb_streamlines :: nat
  writer_nb_points :: nat
  writer_nb_scalars :: nat
  writer_nb_properties :: nat
  writer_file :: outfile

definition TrkWriter_init :: "StreamlinesHeader \<Rightarrow> TrkWriter" where
  "TrkWriter_init hdr =
     (let h0 = create_empty_header;
          h1 = (case extra hdr of
                  None \<Rightarrow> h0
                | Some x \<Rightarrow>
                    x\<lparr>to_world_space :=
                        (case to_world_space x of None \<Rightarrow> to_world_space h0 | Some a \<Rightarrow> Some a)\<rparr>);
          h2 = h1\<lparr>nb_streamlines := (case hdr_nb_streamlines hdr of None \<Rightarrow> 0 | Some n \<Rightarrow> n)\<rparr>;
          h3 = h2\<lparr>nb_scalars_per_point := hdr_nb_scalars_per_point hdr,
                  nb_properties_per_streamline := hdr_nb_properties_per_streamline hdr,
                  voxel_sizes := hdr_voxel_sizes hdr,
                  to_world_space := Some (hdr_to_world_space hdr),
                  voxel_order := hdr_voxel_order hdr\<rparr>
      in \<lparr> writer_header = h3, writer_nb_streamlines = 0, writer_nb_points = 0,
           writer_nb_scalars = 0, writer_nb_properties = 0,
           writer_file = \<lparr> file_header = Some h3, file_data = [] \<rparr> \<rparr>)"

text \<open>
  \<open>points * voxel_sizes\<close> and \<open>points += voxel_sizes / 2\<close>, with the broadcasting of
  numpy: rows of three coordinates, or of one value that is repeated.
\<close>

definition vox_to_voxmm :: "rat list \<Rightarrow> rat list list \<Rightarrow> error + rat list list" where
  "vox_to_voxmm vs pts =
     (if list_all (\<lambda>row. length row = 3) pts then
        Inr (map (\<lambda>row. map2 (+) (map2 (*) row vs) (map (\<lambda>v. v / 2) vs)) pts)
      else if list_all (\<lambda>row. length row = 1) pts then
        Inr (map (\<lambda>row. map2 (+) (map (\<lambda>v. hd row * v) vs) (map (\<lambda>v. v / 2) vs)) pts)
      else Inl ValueError)"

text \<open>
  \<open>np.array(scalars).reshape((len(points), -1))\<close>: the rows must have one length;
  no array can be reshaped to \<open>(0, -1)\<close>; an empty array becomes \<open>n\<close> empty rows.
\<close>

definition reshape_scalars :: "nat \<Rightarrow> rat list list \<Rightarrow> error + rat list list" where
  "reshape_scalars n scs =
     (if \<not> list_all (\<lambda>row. length row = length (hd scs)) scs then Inl ValueError
      else if n = 0 then Inl ValueError
      else if concat scs = [] then Inr (replicate n [])
      else Inr scs)"

text \<open>The body of the \<open>for\<close> loop of \<open>write\<close>, for one triple.\<close>

definition write_streamline :: "TrkWriter \<Rightarrow> streamline \<Rightarrow> error + TrkWriter" where
  "write_streamline w t =
     (case t of (pts, scs, props) \<Rightarrow>
        if length scs > 0 \<and> length scs \<noteq> length pts then Inl DataError
        else
          (case reshape_scalars (length pts) scs of
             Inl e \<Rightarrow> Inl e
           | Inr scs' \<Rightarrow>
               (case vox_to_voxmm (voxel_sizes (writer_header w)) pts of
                  Inl e \<Rightarrow> Inl e
                | Inr pts' \<Rightarrow>
                    Inr (w\<lparr> writer_file :=
                             (writer_file w)\<lparr> file_data :=
                                file_data (writer_file w)
                                  @ [(int (length pts'), map2 (@) pts' scs', props)] \<rparr>,
                           writer_nb_streamlines := writer_nb_streamlines w + 1,
                           writer_nb_points := writer_nb_points w + length pts',
                           writer_nb_scalars := writer_nb_scalars w + length (concat scs'),
                           writer_nb_properties := writer_nb_properties w + length props \<rparr>))))"

text \<open>
  The \<open>for\<close> loop: the first exception ends it, and the writer keeps what was written.
\<close>

fun write_loop :: "TrkWriter \<Rightarrow> streamline list \<Rightarrow> error option \<times> TrkWriter" where
  "write_loop w [] = (None, w)"
| "write_loop w (t # ts) =
     (case write_streamline w t of
        Inl e \<Rightarrow> (Some e, w)
      | Inr w' \<Rightarrow> write_loop w' ts)"

text \<open>
  After the loop. \<open>/\<close> is the true division of Python 3 on two integers: it raises
  \<open>ZeroDivisionError\<close> on a zero divisor. \<open>int\<close> truncates; the quotients are not negative.
\<close>

definition finish_write :: "TrkWriter \<Rightarrow> error option \<times> TrkWriter" where
  "finish_write w =
     (if writer_nb_points w = 0 then (Some ZeroDivisionError, w)
      else if writer_nb_streamlines w = 0 then (Some ZeroDivisionError, w)
      else
        (let nb_scalars_per_point = (of_nat (writer_nb_scalars w) / of_nat (writer_nb_points w) :: rat);
             nb_properties_per_streamline =
               (of_nat (writer_nb_properties w) / of_nat (writer_nb_streamlines w) :: rat)
         in if nb_scalars_per_point \<noteq> of_int \<lfloor>nb_scalars_per_point\<rfloor> then (Some DataError, w)
            else if nb_properties_per_streamline \<noteq> of_int \<lfloor>nb_properties_per_streamline\<rfloor>
            then (Some DataError, w)
            else
              (let h = (writer_header w)
                         \<lparr>nb_streamlines := int (writer_nb_streamlines w),
                          nb_scalars_per_point := \<lfloor>nb_scalars_per_point\<rfloor>,
                          nb_properties_per_streamline := \<lfloor>nb_properties_per_streamline\<rfloor>\<rparr>
               in (None, w\<lparr>writer_header := h,
                           writer_file := (writer_file w)\<lparr>file_header := Some h\<rparr>\<rparr>))))"

definition TrkWriter_write :: "TrkWriter \<Rightarrow> streamline list \<Rightarrow> error option \<times> TrkWriter" where
  "TrkWriter_write w streamlines =
     (case write_loop w streamlines of
        (Some e, w') \<Rightarrow> (Some e, w')
      | (None, w') \<Rightarrow> finish_write w')"

subsection \<open>The wire format of a record\<close>

text \<open>
  What \<open>__iter__\<close> consumes for one record whose count field holds \<open>n\<close>: the 4 bytes of
  the count, \<open>n * (3 + S)\<close> float32 values and \<open>P\<close> float32 properties. A byte string is a
  well-formed record when its count is not negative and its length is exactly that.
\<close>

definition record_size :: "TrkReader \<Rightarrow> int \<Rightarrow> nat" where
  "record_size r n =
     4 + nat (n * ((3 + nb_scalars_per_point (header r)) * 4))
       + nat (nb_properties_per_streamline (header r) * 4)"

definition well_formed_record :: "TrkReader \<Rightarrow> byte list \<Rightarrow> bool" where
  "well_formed_record r b =
     (4 \<le> length b \<and> 0 \<le> i4 (endianness r) (take 4 b)
      \<and> length b = record_size r (i4 (endianness r) (take 4 b)))"


subsection \<open>Concrete inputs\<close>

text \<open>
  A reader as \<open>TrkReader.__init__\<close> leaves it after a little-endian version-2 header with
  voxel sizes (2, 2, 2), and a file whose first 1000 bytes are that header (its bytes do
  not matter to \<open>__iter__\<close>) with the cursor after it.
\<close>

definition example_header :: "int \<Rightarrow> int \<Rightarrow> int \<Rightarrow> trk_header" where
  "example_header S P n =
     \<lparr> magic_number = MAGIC_NUMBER, dimensions = [1, 1, 1], voxel_sizes = [2, 2, 2],
       origin = [0, 0, 0], nb_scalars_per_point = S, nb_properties_per_streamline = P,
       to_world_space = Some [1, 0, 0, 0, 0, 1, 0, 0, 0, 0, 1, 0, 0, 0, 0, 1],
       voxel_order = LPS, image_orientation_patient = [0, 0, 0, 0, 0, 0],
       nb_streamlines = n, version = 2, hdr_size = 1000 \<rparr>"

definition example_reader :: "int \<Rightarrow> int \<Rightarrow> int \<Rightarrow> TrkReader" where
  "example_reader S P n =
     \<lparr> header = example_header S P n, endianness = Little, offset_data = 1000,
       warned = False \<rparr>"

definition example_file :: "byte list \<Rightarrow> fileobj" where
  "example_file d = \<lparr> content = replicate 1000 0 @ d, pos = 1000 \<rparr>"

text \<open>
  A header of 1000 bytes in byte order \<open>e\<close> and of version \<open>v\<close>: magic \<open>TRACK\<close>,
  dimensions and voxel sizes 1, the identity matrix at offset 440, voxel order \<open>LPS\<close>,
  count 0, header size 1000. \<open>example_blob Big v\<close> is \<open>example_blob Little v\<close> with the
  bytes of every number swapped.
\<close>

definition bo :: "endian \<Rightarrow> byte list \<Rightarrow> byte list" where
  "bo e bs = (case e of Little \<Rightarrow> bs | Big \<Rightarrow> rev bs)"

definition example_blob :: "endian \<Rightarrow> byte \<Rightarrow> byte list" where
  "example_blob e v =
     [0x54, 0x52, 0x41, 0x43, 0x4B, 0]
     @ bo e [1, 0] @ bo e [1, 0] @ bo e [1, 0]
     @ bo e [0, 0, 0x80, 0x3F] @ bo e [0, 0, 0x80, 0x3F] @ bo e [0, 0, 0x80, 0x3F]
     @ replicate 12 0
     @ [0, 0] @ replicate 200 0 @ [0, 0] @ replicate 200 0
     @ bo e [0, 0, 0x80, 0x3F] @ replicate 16 0 @ bo e [0, 0, 0x80, 0x3F] @ replicate 16 0
     @ bo e [0, 0, 0x80, 0x3F] @ replicate 16 0 @ bo e [0, 0, 0x80, 0x3F]
     @ replicate 444 0
     @ [0x4C, 0x50, 0x53, 0] @ replicate 36 0
     @ bo e [0, 0, 0, 0] @ bo e [v, 0, 0, 0] @ bo e [0xE8, 3, 0, 0]"

text \<open>The header of a container with voxel sizes (2, 2, 2) and nothing else set.\<close>

definition example_config :: StreamlinesHeader where
  "example_config =
     \<lparr> extra = None, hdr_nb_streamlines = None, hdr_nb_scalars_per_point = 0,
       hdr_nb_properties_per_streamline = 0, hdr_voxel_sizes = [2, 2, 2],
       hdr_to_world_space = [1, 0, 0, 0, 0, 1, 0, 0, 0, 0, 1, 0, 0, 0, 0, 1],
       hdr_voxel_order = LPS \<rparr>"

text \<open>A record of one point (1, 1, 1) and one of two points (1, 1, 1), (5, 5, 5).\<close>

definition record_1pt :: "byte list" where
  "record_1pt = [1, 0, 0, 0] @ [0, 0, 0x80, 0x3F, 0, 0, 0x80, 0x3F, 0, 0, 0x80, 0x3F]"

definition record_2pts :: "byte list" where
  "record_2pts = [2, 0, 0, 0] @ [0, 0, 0x80, 0x3F, 0, 0, 0x80, 0x3F, 0, 0, 0x80, 0x3F]
                   @ [0, 0, 0xA0, 0x40, 0, 0, 0xA0, 0x40, 0, 0, 0xA0, 0x40]"

section \<open>Properties of the reader\<close>

subsection \<open>Reading well-formed records\<close>

lemma read_pts_and_scalars_ok:
  assumes "0 \<le> n" "0 \<le> 3 + nb_scalars_per_point (header r)"
    and "pos f + nat (n * ((3 + nb_scalars_per_point (header r)) * 4)) \<le> length (content f)"
  shows "\<exists>x. read_pts_and_scalars r n f
           = Inr (x, f\<lparr>pos := pos f + nat (n * ((3 + nb_scalars_per_point (header r)) * 4))\<rparr>)"
proof -
  have "\<not> n * (12 + nb_scalars_per_point (header r) * 4) < 0"
    using assms(1,2) by (simp add: not_less)
  with assms show ?thesis
    by (auto simp: read_pts_and_scalars_def f_read_def Let_def min_def)
qed

lemma read_properties_ok:
  assumes "pos f + nat (nb_properties_per_streamline (header r) * 4) \<le> length (content f)"
  shows "\<exists>x. read_properties r f
           = Inr (x, f\<lparr>pos := pos f + nat (nb_properties_per_streamline (header r) * 4)\<rparr>)"
  using assms by (auto simp: read_properties_def f_read_def Let_def min_def)


lemma read_streamline_ok:
  assumes "length c = 4" "0 \<le> i4 (endianness r) c" "0 \<le> nb_scalars_per_point (header r)"
    and "pos f + record_size r (i4 (endianness r) c) \<le> length (content f) + 4"
  shows "\<exists>s. read_streamline r c f
           = Inr (s, f\<lparr>pos := pos f + record_size r (i4 (endianness r) c) - 4\<rparr>)"
proof -
  let ?n = "i4 (endianness r) c"
  let ?a = "nat (?n * ((3 + nb_scalars_per_point (header r)) * 4))"
  let ?b = "nat (nb_properties_per_streamline (header r) * 4)"
  have sz: "record_size r ?n = 4 + ?a + ?b"
    by (simp add: record_size_def)
  from assms(4) sz have le1: "pos f + ?a \<le> length (content f)"
    by linarith
  from read_pts_and_scalars_ok [OF assms(2) _ le1] assms(3)
  obtain x where x: "read_pts_and_scalars r ?n f = Inr (x, f\<lparr>pos := pos f + ?a\<rparr>)"
    by auto
  let ?f1 = "f\<lparr>pos := pos f + ?a\<rparr>"
  from assms(4) sz have le2: "pos ?f1 + ?b \<le> length (content ?f1)"
    by simp
  from read_properties_ok [OF le2]
  obtain y where y: "read_properties r ?f1 = Inr (y, ?f1\<lparr>pos := pos ?f1 + ?b\<rparr>)"
    by auto
  have pos: "?f1\<lparr>pos := pos ?f1 + ?b\<rparr> = f\<lparr>pos := pos f + record_size r ?n - 4\<rparr>"
    by (simp add: sz)
  show ?thesis
    using assms(1,3) x y pos
    by (cases x) (auto simp: read_streamline_def Let_def voxmm_to_vox_def)
qed


lemma iter_loop_records:
  assumes S: "0 \<le> nb_scalars_per_point (header r)"
  shows "list_all (well_formed_record r) recs \<Longrightarrow> content f = pre @ concat recs
      \<Longrightarrow> pos f = length pre
      \<Longrightarrow> (case nb of None \<Rightarrow> True | Some n \<Rightarrow> int (i + length recs) \<le> n)
      \<Longrightarrow> \<exists>ys. iter_loop r nb i f acc
                  = (acc @ ys, Inr (i + length recs, f\<lparr>pos := length (content f)\<rparr>))
               \<and> length ys = length recs"
proof (induction recs arbitrary: pre i acc f)
  case Nil
  then have "fst (f_read 4 f) = []" "snd (f_read 4 f) = f" "f\<lparr>pos := length (content f)\<rparr> = f"
    by (simp_all add: f_read_def Let_def)
  then show ?case
    by (subst iter_loop.simps) simp
next
  case (Cons b recs)
  let ?n = "i4 (endianness r) (take 4 b)"
  from Cons.prems(1) have wfb: "well_formed_record r b"
    and rest: "list_all (well_formed_record r) recs"
    by simp_all
  from wfb have wf: "4 \<le> length b" "0 \<le> ?n" "length b = record_size r ?n"
    by (simp_all add: well_formed_record_def)
  from Cons.prems(2,3) wf(1) have rd: "fst (f_read 4 f) = take 4 b"
    "snd (f_read 4 f) = f\<lparr>pos := length pre + 4\<rparr>"
    by (simp_all add: f_read_def Let_def min_def)
  let ?f1 = "f\<lparr>pos := length pre + 4\<rparr>"
  have "pos ?f1 + record_size r ?n \<le> length (content ?f1) + 4"
    using Cons.prems(2) wf(3) by simp
  from read_streamline_ok [OF _ wf(2) S this] wf(1)
  obtain s where s: "read_streamline r (take 4 b) ?f1
      = Inr (s, ?f1\<lparr>pos := pos ?f1 + record_size r ?n - 4\<rparr>)"
    by auto
  let ?f2 = "f\<lparr>pos := length (pre @ b)\<rparr>"
  have f2: "?f1\<lparr>pos := pos ?f1 + record_size r ?n - 4\<rparr> = ?f2"
    using wf(3) by simp
  have c2: "content ?f2 = (pre @ b) @ concat recs" "pos ?f2 = length (pre @ b)"
    using Cons.prems(2) by simp_all
  have b2: "case nb of None \<Rightarrow> True | Some n \<Rightarrow> int (Suc i + length recs) \<le> n"
    using Cons.prems(4) by (simp split: option.splits)
  from Cons.IH [OF rest c2 b2, of "acc @ [s]"]
  obtain ys where ys: "iter_loop r nb (Suc i) ?f2 (acc @ [s])
      = ((acc @ [s]) @ ys, Inr (Suc i + length recs, ?f2\<lparr>pos := length (content ?f2)\<rparr>))"
    "length ys = length recs"
    by auto
  have cond: "case nb of None \<Rightarrow> True | Some n \<Rightarrow> int i < n"
    using Cons.prems(4) by (simp split: option.splits)
  have ne: "take 4 b \<noteq> []"
    using wf(1) by auto
  have "iter_loop r nb i f acc = iter_loop r nb (Suc i) ?f2 (acc @ [s])"
    using cond ne by (subst iter_loop.simps) (simp add: rd s wf(3) [symmetric])
  with ys show ?case
    by (intro exI [of _ "s # ys"]) simp
qed

lemma iter_loop_count:
  "iter_loop r nb i f acc = (ys, Inr (j, f')) \<Longrightarrow> length ys + i = length acc + j"
proof (induction r nb i f acc rule: iter_loop.induct)
  case (1 r nb i f acc)
  from "1.prems" "1.IH" show ?case
    by (subst (asm) iter_loop.simps) (auto split: if_splits sum.splits prod.splits)
qed

lemma TrkReader_iter_records:
  assumes "0 \<le> nb_scalars_per_point (header r)"
    and "list_all (well_formed_record r) recs"
    and "content f = pre @ concat recs" and "offset_data r = length pre"
    and "nb_streamlines (header r) = 0 \<or> int (length recs) \<le> nb_streamlines (header r)"
  shows "\<exists>ys. TrkReader_iter r f
            = (ys, Inr (r\<lparr>header := (header r)\<lparr>nb_streamlines := int (length recs)\<rparr>\<rparr>,
                        f\<lparr>pos := length (content f) + pos f\<rparr>))
          \<and> length ys = length recs"
proof -
  let ?f1 = "f\<lparr>pos := length pre\<rparr>"
  let ?nb = "if nb_streamlines (header r) = 0 then None else Some (nb_streamlines (header r))"
  have c: "content ?f1 = pre @ concat recs" "pos ?f1 = length pre"
    using assms(3) by simp_all
  have b: "case ?nb of None \<Rightarrow> True | Some n \<Rightarrow> int (0 + length recs) \<le> n"
    using assms(5) by auto
  from iter_loop_records [OF assms(1,2) c b, of "[]"]
  obtain ys where ys: "iter_loop r ?nb 0 ?f1 []
      = (ys, Inr (length recs, ?f1\<lparr>pos := length (content ?f1)\<rparr>))" "length ys = length recs"
    by auto
  show ?thesis
    using ys assms(4)
    by (intro exI [of _ ys])
       (simp add: TrkReader_iter_def Let_def f_tell_def f_seek_set_def f_seek_cur_def)
qed

lemma well_formed_record_1pt: "well_formed_record (example_reader 0 0 n) record_1pt"
  by (simp add: well_formed_record_def record_size_def example_reader_def example_header_def
        record_1pt_def i4_def to_word_def)

lemma well_formed_record_2pts: "well_formed_record (example_reader 0 0 n) record_2pts"
  by (simp add: well_formed_record_def record_size_def example_reader_def example_header_def
        record_2pts_def i4_def to_word_def)

subsection \<open>The count of the header after a traversal\<close>

text \<open>
  Claim C8. When the header declares a count of 0 and the bytes after the header are
  exactly \<open>K\<close> well-formed records, the generator runs to its end, yields exactly \<open>K\<close>
  triples, and leaves \<open>K\<close> in the header's count. The number of scalars per point of
  the header is a count: it is not negative.
\<close>

theorem declared_zero_discovers_count:
  assumes "nb_streamlines (header r) = 0"
    and "0 \<le> nb_scalars_per_point (header r)"
    and "list_all (well_formed_record r) recs"
    and "content f = pre @ concat recs" and "offset_data r = length pre"
  shows "\<exists>ys r' f'. TrkReader_iter r f = (ys, Inr (r', f'))
           \<and> length ys = length recs \<and> nb_streamlines (header r') = int (length recs)"
proof -
  from TrkReader_iter_records [OF assms(2,3,4,5)] assms(1)
  obtain ys where "TrkReader_iter r f
      = (ys, Inr (r\<lparr>header := (header r)\<lparr>nb_streamlines := int (length recs)\<rparr>\<rparr>,
                  f\<lparr>pos := length (content f) + pos f\<rparr>))" "length ys = length recs"
    by auto
  then show ?thesis by auto
qed

theorem declared_zero_discovers_count_witness:
  "nb_streamlines (header (example_reader 0 0 0)) = 0
   \<and> 0 \<le> nb_scalars_per_point (header (example_reader 0 0 0))
   \<and> list_all (well_formed_record (example_reader 0 0 0)) [record_1pt, record_2pts]
   \<and> content (example_file (record_1pt @ record_2pts))
        = replicate 1000 0 @ concat [record_1pt, record_2pts]
   \<and> offset_data (example_reader 0 0 0) = length (replicate 1000 (0::byte))
   \<and> (\<exists>ys r' f'. TrkReader_iter (example_reader 0 0 0) (example_file (record_1pt @ record_2pts))
                     = (ys, Inr (r', f'))
          \<and> length ys = 2 \<and> nb_streamlines (header r') = 2)"
proof -
  have h1: "nb_streamlines (header (example_reader 0 0 0)) = 0"
    and h2: "0 \<le> nb_scalars_per_point (header (example_reader 0 0 0))"
    and h5: "offset_data (example_reader 0 0 0) = length (replicate 1000 (0::byte))"
    by (simp_all add: example_reader_def example_header_def)
  have h3: "list_all (well_formed_record (example_reader 0 0 0)) [record_1pt, record_2pts]"
    by (simp add: well_formed_record_1pt well_formed_record_2pts)
  have h4: "content (example_file (record_1pt @ record_2pts))
        = replicate 1000 0 @ concat [record_1pt, record_2pts]"
    by (simp add: example_file_def)
  from declared_zero_discovers_count [OF h1 h2 h3 h4 h5]
  have "\<exists>ys r' f'. TrkReader_iter (example_reader 0 0 0) (example_file (record_1pt @ record_2pts))
                     = (ys, Inr (r', f'))
          \<and> length ys = 2 \<and> nb_streamlines (header r') = 2"
    by (simp add: numeral_2_eq_2)
  with h1 h2 h3 h4 h5 show ?thesis by blast
qed

text \<open>
  Claim C10. Every traversal that runs to its end overwrites the header's count with
  the number of triples it yielded, whatever the count was before. The instance below
  is a header that declares 5 streamlines over a stream of one record: the count
  becomes 1.
\<close>

theorem full_traversal_overwrites_count:
  "TrkReader_iter r f = (ys, Inr (r', f')) \<Longrightarrow> nb_streamlines (header r') = int (length ys)"
  by (auto simp: TrkReader_iter_def Let_def split: sum.splits prod.splits dest!: iter_loop_count)

theorem full_traversal_overwrites_count_witness:
  "\<exists>ys r' f'. TrkReader_iter (example_reader 0 0 5) (example_file record_2pts) = (ys, Inr (r', f'))
      \<and> nb_streamlines (header (example_reader 0 0 5)) = 5
      \<and> length ys = 1 \<and> nb_streamlines (header r') = 1"
proof -
  have "list_all (well_formed_record (example_reader 0 0 5)) [record_2pts]"
    by (simp add: well_formed_record_2pts)
  from TrkReader_iter_records [OF _ this, of "example_file record_2pts" "replicate 1000 0"]
  obtain ys r' f' where it: "TrkReader_iter (example_reader 0 0 5) (example_file record_2pts)
      = (ys, Inr (r', f'))" and len: "length ys = 1"
    by (auto simp: example_reader_def example_header_def example_file_def)
  from full_traversal_overwrites_count [OF it] len
  have "nb_streamlines (header r') = 1" by simp
  with it len show ?thesis
    by (auto simp: example_reader_def example_header_def)
qed

subsection \<open>The cursor after a traversal\<close>

text \<open>
  The generator ends with \<open>f.seek(start_position, os.SEEK_CUR)\<close>: a move relative to the
  cursor, which stands after the last record read. The cursor ends at least
  \<open>offset_data\<close> bytes after the place where it was when the traversal began.
\<close>

lemma iter_loop_file:
  "iter_loop r nb i f acc = (ys, Inr (j, f')) \<Longrightarrow> content f' = content f \<and> pos f \<le> pos f'"
proof (induction r nb i f acc rule: iter_loop.induct)
  case (1 r nb i f acc)
  show ?case
  proof (cases "(case nb of None \<Rightarrow> True | Some n \<Rightarrow> int i < n) \<and> fst (f_read 4 f) \<noteq> []")
    case False
    with "1.prems" show ?thesis
      by (subst (asm) iter_loop.simps) (auto simp: f_read_content f_read_pos split: if_splits)
  next
    case True
    with "1.prems" obtain s f2 where
      s: "read_streamline r (fst (f_read 4 f)) (snd (f_read 4 f)) = Inr (s, f2)"
      and rec: "iter_loop r nb (i + 1) f2 (acc @ [s]) = (ys, Inr (j, f'))"
      by (subst (asm) iter_loop.simps) (auto split: sum.splits)
    from "1.IH" [OF _ _ s refl rec] True
    have "content f' = content f2 \<and> pos f2 \<le> pos f'" by simp
    moreover from read_streamline_file [OF s]
    have "content f2 = content f \<and> pos f \<le> pos f2"
      by (simp add: f_read_content f_read_pos)
    ultimately show ?thesis by simp
  qed
qed

lemma traversal_moves_cursor:
  "TrkReader_iter r f = (ys, Inr (r', f')) \<Longrightarrow> offset_data r + pos f \<le> pos f'"
  by (auto simp: TrkReader_iter_def Let_def f_tell_def f_seek_set_def f_seek_cur_def
        split: sum.splits prod.splits if_splits dest!: iter_loop_file)
lemma example_file_rest: "drop (pos (example_file d)) (content (example_file d)) = d"
  by (simp add: example_file_def)

text \<open>
  Claim C7 (the code differs). A file of a header and one record of 16 bytes, the cursor
  after the header at 1000 as \<open>__init__\<close> leaves it: the traversal runs to its end and
  leaves the cursor at 2016 (the end 1016 plus the start 1000), not at 1000.
\<close>

theorem cursor_not_restored_example:
  "f_tell (example_file record_1pt) = 1000
   \<and> (\<exists>ys r'. TrkReader_iter (example_reader 0 0 0) (example_file record_1pt)
         = (ys, Inr (r', \<lparr>content = replicate 1000 0 @ record_1pt, pos = 2016\<rparr>)))"
proof -
  have "list_all (well_formed_record (example_reader 0 0 0)) [record_1pt]"
    by (simp add: well_formed_record_1pt)
  from TrkReader_iter_records [OF _ this, of "example_file record_1pt" "replicate 1000 0"]
  show ?thesis
    by (auto simp: example_reader_def example_header_def example_file_def f_tell_def
          record_1pt_def)
qed

subsection \<open>A second traversal\<close>

text \<open>
  A second traversal still yields the same triples, because \<open>__iter__\<close> begins with an
  absolute seek to \<open>offset_data\<close>: the count left in the header by the first traversal
  bounds the second one at the same place. (For a header whose count is negative the
  first traversal yields nothing and leaves 0, which lifts the bound.)
\<close>

lemma iter_loop_counter:
  "iter_loop r nb i f acc = (ys, Inr (j, f')) \<Longrightarrow> i \<le> j"
proof (induction r nb i f acc rule: iter_loop.induct)
  case (1 r nb i f acc)
  from "1.prems" "1.IH" show ?case
    by (subst (asm) iter_loop.simps) (fastforce split: if_splits sum.splits prod.splits)
qed

lemma iter_loop_again:
  "iter_loop r nb i f acc = (ys, Inr (j, f')) \<Longrightarrow>
     fst (iter_loop r (Some (int j)) i f acc) = ys"
proof (induction r nb i f acc rule: iter_loop.induct)
  case (1 r nb i f acc)
  from iter_loop_count [OF "1.prems"] have ij: "length ys + i = length acc + j" .
  show ?case
  proof (cases "(case nb of None \<Rightarrow> True | Some n \<Rightarrow> int i < n) \<and> fst (f_read 4 f) \<noteq> []")
    case False
    with "1.prems" have "ys = acc"
      by (subst (asm) iter_loop.simps) (auto split: if_splits)
    with ij have "i = j" by simp
    with \<open>ys = acc\<close> show ?thesis
      by (subst iter_loop.simps) simp
  next
    case True
    with "1.prems" obtain s f2 where
      s: "read_streamline r (fst (f_read 4 f)) (snd (f_read 4 f)) = Inr (s, f2)"
      and rec: "iter_loop r nb (i + 1) f2 (acc @ [s]) = (ys, Inr (j, f'))"
      by (subst (asm) iter_loop.simps) (auto split: sum.splits)
    from "1.IH" [OF _ _ s refl rec] True
    have ih: "fst (iter_loop r (Some (int j)) (i + 1) f2 (acc @ [s])) = ys" by simp
    from iter_loop_counter [OF rec] have "i < j" by simp
    with True s ih show ?thesis
      by (subst iter_loop.simps) simp
  qed
qed


lemma read_pts_and_scalars_count_field:
  "read_pts_and_scalars (r\<lparr>header := (header r)\<lparr>nb_streamlines := k\<rparr>\<rparr>) n f
     = read_pts_and_scalars r n f"
  by (simp add: read_pts_and_scalars_def Let_def split: prod.splits)

lemma read_properties_count_field:
  "read_properties (r\<lparr>header := (header r)\<lparr>nb_streamlines := k\<rparr>\<rparr>) f = read_properties r f"
  by (simp add: read_properties_def Let_def split: prod.splits)

lemma read_streamline_count_field:
  "read_streamline (r\<lparr>header := (header r)\<lparr>nb_streamlines := k\<rparr>\<rparr>) c f = read_streamline r c f"
  by (simp add: read_streamline_def read_pts_and_scalars_count_field
        read_properties_count_field Let_def split: sum.splits prod.splits)

lemma iter_loop_count_field:
  "iter_loop (r\<lparr>header := (header r)\<lparr>nb_streamlines := k\<rparr>\<rparr>) nb i f acc = iter_loop r nb i f acc"
proof (induction r nb i f acc rule: iter_loop.induct)
  case (1 r nb i f acc)
  let ?r = "r\<lparr>header := (header r)\<lparr>nb_streamlines := k\<rparr>\<rparr>"
  show ?case
  proof (cases "read_streamline r (fst (f_read 4 f)) (snd (f_read 4 f))")
    case (Inl e)
    then show ?thesis
      by (subst iter_loop.simps, subst (2) iter_loop.simps)
         (simp add: read_streamline_count_field)
  next
    case (Inr x)
    obtain s f2 where x: "x = (s, f2)" by (cases x)
    show ?thesis
    proof (cases "(case nb of None \<Rightarrow> True | Some n \<Rightarrow> int i < n) \<and> fst (f_read 4 f) \<noteq> []")
      case True
      with "1.IH" [OF _ _ Inr x [symmetric]]
      have "iter_loop ?r nb (i + 1) f2 (acc @ [s]) = iter_loop r nb (i + 1) f2 (acc @ [s])"
        by simp
      with True Inr x show ?thesis
        by (subst iter_loop.simps, subst (2) iter_loop.simps)
           (simp add: read_streamline_count_field)
    next
      case False
      then show ?thesis
        by (subst iter_loop.simps, subst (2) iter_loop.simps) auto
    qed
  qed
qed

lemma fst_TrkReader_iter:
  "fst (TrkReader_iter r f)
     = fst (iter_loop r (if nb_streamlines (header r) = 0 then None
                         else Some (nb_streamlines (header r))) 0 (f\<lparr>pos := offset_data r\<rparr>) [])"
  by (simp add: TrkReader_iter_def f_seek_set_def f_seek_cur_def Let_def
        split: prod.splits sum.splits)

lemma second_traversal_same:
  assumes "0 \<le> nb_streamlines (header r)" and "TrkReader_iter r f = (ys, Inr (r', f'))"
  shows "fst (TrkReader_iter r' f') = ys"
proof -
  let ?nb = "if nb_streamlines (header r) = 0 then None else Some (nb_streamlines (header r))"
  let ?f1 = "f\<lparr>pos := offset_data r\<rparr>"
  from assms(2) obtain j f2 where
    loop: "iter_loop r ?nb 0 ?f1 [] = (ys, Inr (j, f2))"
    and r': "r' = r\<lparr>header := (header r)\<lparr>nb_streamlines := int j\<rparr>\<rparr>"
    and f': "f' = f2\<lparr>pos := pos f2 + pos f\<rparr>"
    by (auto simp: TrkReader_iter_def f_seek_set_def f_seek_cur_def f_tell_def Let_def
          split: prod.splits sum.splits)
  from iter_loop_file [OF loop] have "content f2 = content ?f1" by simp
  then have f1: "f'\<lparr>pos := offset_data r'\<rparr> = ?f1"
    by (simp add: f' r')
  have "fst (iter_loop r (if j = 0 then None else Some (int j)) 0 ?f1 []) = ys"
  proof (cases "j = 0")
    case False
    with iter_loop_again [OF loop] show ?thesis by simp
  next
    case True
    with iter_loop_count [OF loop] have ys: "ys = []" by simp
    have "case ?nb of None \<Rightarrow> True | Some n \<Rightarrow> int 0 < n"
      using assms(1) by simp
    with loop True have "fst (f_read 4 ?f1) = []"
      by (subst (asm) iter_loop.simps)
         (auto split: if_splits sum.splits dest: iter_loop_counter)
    with True ys show ?thesis
      by (subst iter_loop.simps) simp
  qed
  moreover have "fst (TrkReader_iter r' f')
      = fst (iter_loop r (if j = 0 then None else Some (int j)) 0 ?f1 [])"
    unfolding fst_TrkReader_iter f1 by (simp add: r' iter_loop_count_field)
  ultimately show ?thesis by (simp only:)
qed


lemma second_traversal_same_example:
  "\<exists>ys r' f'. TrkReader_iter (example_reader 0 0 0) (example_file record_1pt) = (ys, Inr (r', f'))
      \<and> 0 \<le> nb_streamlines (header (example_reader 0 0 0))
      \<and> length ys = 1 \<and> fst (TrkReader_iter r' f') = ys"
proof -
  have z: "0 \<le> nb_streamlines (header (example_reader 0 0 0))"
    by (simp add: example_reader_def example_header_def)
  have "list_all (well_formed_record (example_reader 0 0 0)) [record_1pt]"
    by (simp add: well_formed_record_1pt)
  from TrkReader_iter_records [OF _ this, of "example_file record_1pt" "replicate 1000 0"]
  obtain ys r' f' where it: "TrkReader_iter (example_reader 0 0 0) (example_file record_1pt)
      = (ys, Inr (r', f'))" and len: "length ys = 1"
    by (auto simp: example_reader_def example_header_def example_file_def)
  from second_traversal_same [OF z it] it len z show ?thesis
    by blast
qed

subsection \<open>Truncated input\<close>

text \<open>
  Claim C4. In a turn of the loop (the bound not reached yet): when 1 to 3 bytes are left,
  \<open>struct.unpack\<close> raises; when the count field is complete and fewer bytes follow than
  the points and scalars of the record take, \<open>np.ndarray\<close> raises; when those are
  complete and fewer bytes follow than the properties take, \<open>np.fromstring\<close> raises.
  These three exceptions are what the specification calls TruncatedDataError. In each
  case the generator ends with the exception and yields nothing for the record: the
  list of yielded triples is the accumulator unchanged.
\<close>

theorem truncated_record_raises:
  assumes "case nb of None \<Rightarrow> True | Some n \<Rightarrow> int i < n"
  shows "(0 < length (drop (pos f) (content f)) \<and> length (drop (pos f) (content f)) < 4
            \<longrightarrow> iter_loop r nb i f acc = (acc, Inl StructError))
       \<and> (4 \<le> length (drop (pos f) (content f))
            \<and> 0 \<le> i4 (endianness r) (take 4 (drop (pos f) (content f)))
            \<and> 0 \<le> 3 + nb_scalars_per_point (header r)
            \<and> int (length (drop (pos f) (content f))) - 4
                 < i4 (endianness r) (take 4 (drop (pos f) (content f)))
                     * ((3 + nb_scalars_per_point (header r)) * 4)
            \<longrightarrow> iter_loop r nb i f acc = (acc, Inl BufferTooSmall))
       \<and> (4 \<le> length (drop (pos f) (content f))
            \<and> 0 \<le> i4 (endianness r) (take 4 (drop (pos f) (content f)))
            \<and> 0 \<le> 3 + nb_scalars_per_point (header r)
            \<and> 0 < nb_properties_per_streamline (header r)
            \<and> i4 (endianness r) (take 4 (drop (pos f) (content f)))
                 * ((3 + nb_scalars_per_point (header r)) * 4)
                 \<le> int (length (drop (pos f) (content f))) - 4
            \<and> int (length (drop (pos f) (content f))) - 4
                 < i4 (endianness r) (take 4 (drop (pos f) (content f)))
                     * ((3 + nb_scalars_per_point (header r)) * 4)
                   + nb_properties_per_streamline (header r) * 4
            \<longrightarrow> iter_loop r nb i f acc = (acc, Inl StringTooSmall))"
proof (intro conjI impI)
  let ?rest = "drop (pos f) (content f)"
  assume "0 < length ?rest \<and> length ?rest < 4"
  then have "fst (f_read 4 f) \<noteq> []" "length (fst (f_read 4 f)) \<noteq> 4"
    by (auto simp: f_read_def Let_def)
  with assms show "iter_loop r nb i f acc = (acc, Inl StructError)"
    by (subst iter_loop.simps) (simp add: read_streamline_def)
next
  let ?rest = "drop (pos f) (content f)"
  let ?n = "i4 (endianness r) (take 4 ?rest)"
  let ?S = "nb_scalars_per_point (header r)"
  assume a: "4 \<le> length ?rest \<and> 0 \<le> ?n \<and> 0 \<le> 3 + ?S
      \<and> int (length ?rest) - 4 < ?n * ((3 + ?S) * 4)"
  then have rd: "fst (f_read 4 f) = take 4 ?rest" "length (take 4 ?rest) = 4"
    "snd (f_read 4 f) = f\<lparr>pos := pos f + 4\<rparr>"
    by (auto simp: f_read_def Let_def min_def)
  have nn: "\<not> ?n * (12 + ?S * 4) < 0"
    using a by (simp add: not_less)
  have "read_pts_and_scalars r ?n (f\<lparr>pos := pos f + 4\<rparr>) = Inl BufferTooSmall"
    using a nn by (auto simp: read_pts_and_scalars_def f_read_def Let_def)
  then have "read_streamline r (take 4 ?rest) (f\<lparr>pos := pos f + 4\<rparr>) = Inl BufferTooSmall"
    using rd(2) by (simp add: read_streamline_def Let_def)
  moreover have "take 4 ?rest \<noteq> []" using rd(2) by auto
  ultimately show "iter_loop r nb i f acc = (acc, Inl BufferTooSmall)"
    using assms by (subst iter_loop.simps) (simp add: rd)
next
  let ?rest = "drop (pos f) (content f)"
  let ?n = "i4 (endianness r) (take 4 ?rest)"
  let ?S = "nb_scalars_per_point (header r)"
  let ?P = "nb_properties_per_streamline (header r)"
  let ?a = "nat (?n * ((3 + ?S) * 4))"
  assume a: "4 \<le> length ?rest \<and> 0 \<le> ?n \<and> 0 \<le> 3 + ?S \<and> 0 < ?P
      \<and> ?n * ((3 + ?S) * 4) \<le> int (length ?rest) - 4
      \<and> int (length ?rest) - 4 < ?n * ((3 + ?S) * 4) + ?P * 4"
  then have rd: "fst (f_read 4 f) = take 4 ?rest" "length (take 4 ?rest) = 4"
    "snd (f_read 4 f) = f\<lparr>pos := pos f + 4\<rparr>"
    by (auto simp: f_read_def Let_def min_def)
  let ?f1 = "f\<lparr>pos := pos f + 4\<rparr>"
  have le: "pos ?f1 + ?a \<le> length (content ?f1)"
    using a by simp linarith
  from read_pts_and_scalars_ok [of ?n r ?f1, OF _ _ le] a
  obtain x where x: "read_pts_and_scalars r ?n ?f1 = Inr (x, ?f1\<lparr>pos := pos ?f1 + ?a\<rparr>)"
    by auto
  have "read_properties r (?f1\<lparr>pos := pos ?f1 + ?a\<rparr>) = Inl StringTooSmall"
    using a by (auto simp: read_properties_def f_read_def Let_def)
  then have "read_streamline r (take 4 ?rest) ?f1 = Inl StringTooSmall"
    using rd(2) x by (cases x) (simp add: read_streamline_def Let_def)
  moreover have "take 4 ?rest \<noteq> []" using rd(2) by auto
  ultimately show "iter_loop r nb i f acc = (acc, Inl StringTooSmall)"
    using assms by (subst iter_loop.simps) (simp add: rd)
qed

theorem truncated_record_raises_witness:
  "length (drop (pos (example_file [2, 0])) (content (example_file [2, 0]))) = 2
   \<and> iter_loop (example_reader 0 0 0) None 0 (example_file [2, 0]) [] = ([], Inl StructError)
   \<and> i4 Little (take 4 (take 16 record_2pts)) = 2
   \<and> length (drop (pos (example_file (take 16 record_2pts)))
                (content (example_file (take 16 record_2pts)))) = 16
   \<and> iter_loop (example_reader 0 0 0) None 0 (example_file (take 16 record_2pts)) []
       = ([], Inl BufferTooSmall)
   \<and> i4 Little (take 4 record_1pt) = 1
   \<and> length (drop (pos (example_file record_1pt)) (content (example_file record_1pt))) = 16
   \<and> nb_properties_per_streamline (header (example_reader 0 1 0)) = 1
   \<and> iter_loop (example_reader 0 1 0) None 0 (example_file record_1pt) []
       = ([], Inl StringTooSmall)"
proof -
  have n2: "i4 Little (take 4 (take 16 record_2pts)) = 2"
    by (simp add: record_2pts_def i4_def to_word_def)
  have n1: "i4 Little (take 4 record_1pt) = 1"
    by (simp add: record_1pt_def i4_def to_word_def)
  have l2: "length (take 16 record_2pts) = 16"
    by (simp add: record_2pts_def)
  have l1: "length record_1pt = 16"
    by (simp add: record_1pt_def)
  have hd: "endianness (example_reader S P n) = Little"
    "nb_scalars_per_point (header (example_reader S P n)) = S"
    "nb_properties_per_streamline (header (example_reader S P n)) = P" for S P n
    by (simp_all add: example_reader_def example_header_def)
  have a: "iter_loop (example_reader 0 0 0) None 0 (example_file [2, 0]) []
      = ([], Inl StructError)"
    using truncated_record_raises [where nb = None and i = 0 and f = "example_file [2, 0]"
        and r = "example_reader 0 0 0" and acc = "[]"]
    by (simp add: example_file_rest)
  have b: "iter_loop (example_reader 0 0 0) None 0 (example_file (take 16 record_2pts)) []
      = ([], Inl BufferTooSmall)"
    using truncated_record_raises
      [where nb = None and i = 0 and f = "example_file (take 16 record_2pts)"
        and r = "example_reader 0 0 0" and acc = "[]"]
    by (simp only: example_file_rest hd n2 l2) simp
  have c: "iter_loop (example_reader 0 1 0) None 0 (example_file record_1pt) []
      = ([], Inl StringTooSmall)"
    using truncated_record_raises
      [where nb = None and i = 0 and f = "example_file record_1pt"
        and r = "example_reader 0 1 0" and acc = "[]"]
    by (simp only: example_file_rest hd n1 l1) simp
  show ?thesis
    using a b c n1 n2 l1 l2 by (simp add: example_file_rest hd)
qed

section \<open>Properties of the writer\<close>

lemma example_writer:
  "TrkWriter_init example_config
     = \<lparr> writer_header = example_header 0 0 0, writer_nb_streamlines = 0, writer_nb_points = 0,
         writer_nb_scalars = 0, writer_nb_properties = 0,
         writer_file = \<lparr> file_header = Some (example_header 0 0 0), file_data = [] \<rparr> \<rparr>"
  by (simp add: TrkWriter_init_def example_config_def create_empty_header_def
        example_header_def HEADER_SIZE_def Let_def)

lemma write_empty: "writer_nb_points w = 0 \<Longrightarrow> TrkWriter_write w [] = (Some ZeroDivisionError, w)"
  by (simp add: TrkWriter_write_def finish_write_def)

text \<open>
  Claim C6 (the code differs). \<open>write\<close> on an empty sequence: no point was written, and
  \<open>self.nb_scalars / self.nb_points\<close> is \<open>0 / 0\<close> on two Python integers. The call ends
  with \<open>ZeroDivisionError\<close>; the code has no special case for it.
\<close>

theorem empty_write_divides_by_zero:
  "TrkWriter_write (TrkWriter_init example_config) []
     = (Some ZeroDivisionError, TrkWriter_init example_config)"
  by (simp add: write_empty example_writer)

subsection \<open>The check of the counts\<close>

lemma write_streamline_example:
  "length pts = 1 \<Longrightarrow> length scs = 1 \<Longrightarrow> list_all (\<lambda>row. length row = 3) pts
   \<Longrightarrow> hd scs \<noteq> []
   \<Longrightarrow> write_streamline w (pts, scs, props)
     = Inr (w\<lparr> writer_file :=
                (writer_file w)\<lparr> file_data :=
                   file_data (writer_file w)
                     @ [(1, map2 (@) (map (\<lambda>row. map2 (+) (map2 (*) row (voxel_sizes (writer_header w)))
                              (map (\<lambda>v. v / 2) (voxel_sizes (writer_header w)))) pts) scs, props)] \<rparr>,
              writer_nb_streamlines := writer_nb_streamlines w + 1,
              writer_nb_points := writer_nb_points w + 1,
              writer_nb_scalars := writer_nb_scalars w + length (hd scs),
              writer_nb_properties := writer_nb_properties w + length props \<rparr>)"
  by (cases scs; cases "tl scs")
     (simp_all add: write_streamline_def reshape_scalars_def vox_to_voxmm_def)

lemma write_two_example:
  "write_loop (TrkWriter_init example_config)
       [([[0, 0, 0]], [[7]], []), ([[1, 1, 1]], [[7, 8, 9]], [])]
    = (None, (TrkWriter_init example_config)
        \<lparr> writer_file := \<lparr> file_header = Some (example_header 0 0 0),
                            file_data = [(1, [[1, 1, 1, 7]], []), (1, [[3, 3, 3, 7, 8, 9]], [])] \<rparr>,
          writer_nb_streamlines := 2, writer_nb_points := 2, writer_nb_scalars := 4 \<rparr>)"
  by (simp add: write_streamline_example) (simp add: example_writer example_header_def)

text \<open>
  Claim C5 (the code differs). The check after the loop is that the total number of
  scalars divided by the total number of points is an integer. Two records of one point
  each, the first with 1 scalar per point and the second with 3, give 4 / 2 = 2: no
  exception, and the final header, with 2 scalars per point, is written over the
  placeholder, above records of 4 and 6 values per point.
\<close>

theorem varying_scalars_not_detected:
  "TrkWriter_write (TrkWriter_init example_config)
       [([[0, 0, 0]], [[7]], []), ([[1, 1, 1]], [[7, 8, 9]], [])]
    = (None,
       \<lparr> writer_header = (example_header 2 0 2), writer_nb_streamlines = 2,
         writer_nb_points = 2, writer_nb_scalars = 4, writer_nb_properties = 0,
         writer_file = \<lparr> file_header = Some (example_header 2 0 2),
                          file_data = [(1, [[1, 1, 1, 7]], []), (1, [[3, 3, 3, 7, 8, 9]], [])] \<rparr> \<rparr>)"
  unfolding TrkWriter_write_def write_two_example
  by (simp add: finish_write_def example_writer example_header_def Let_def)

text \<open>
  The example of the specification, 2 scalars per point and then 3, is refused, and the
  header of the file is still the placeholder then.
\<close>

lemma two_and_three_scalars_raise:
  "TrkWriter_write (TrkWriter_init example_config)
       [([[0, 0, 0]], [[7, 8]], []), ([[1, 1, 1]], [[7, 8, 9]], [])]
    = (Some DataError, (TrkWriter_init example_config)
        \<lparr> writer_file := \<lparr> file_header = Some (example_header 0 0 0),
                            file_data = [(1, [[1, 1, 1, 7, 8]], []), (1, [[3, 3, 3, 7, 8, 9]], [])] \<rparr>,
          writer_nb_streamlines := 2, writer_nb_points := 2, writer_nb_scalars := 5 \<rparr>)"
proof -
  have wl: "write_loop (TrkWriter_init example_config)
       [([[0, 0, 0]], [[7, 8]], []), ([[1, 1, 1]], [[7, 8, 9]], [])]
    = (None, (TrkWriter_init example_config)
        \<lparr> writer_file := \<lparr> file_header = Some (example_header 0 0 0),
                            file_data = [(1, [[1, 1, 1, 7, 8]], []), (1, [[3, 3, 3, 7, 8, 9]], [])] \<rparr>,
          writer_nb_streamlines := 2, writer_nb_points := 2, writer_nb_scalars := 5 \<rparr>)"
    by (simp add: write_streamline_example) (simp add: example_writer example_header_def)
  have fl: "\<lfloor>5 / 2 :: rat\<rfloor> = 2"
    by (simp add: floor_eq_iff)
  show ?thesis
    unfolding TrkWriter_write_def wl
    by (simp add: finish_write_def example_writer Let_def fl)
qed

section \<open>Saving and loading again\<close>

text \<open>
  What the two conversions do to one point, for voxel sizes that are not zero: the
  coordinate \<open>x\<close> comes back as \<open>x + 1/2 - a/2\<close>, which is \<open>x\<close> only for a voxel size of 1.
\<close>

lemma save_then_load_point:
  assumes "a \<noteq> 0" "b \<noteq> 0" "c \<noteq> 0"
  shows "vox_to_voxmm [a, b, c] [[x, y, z]]
           = Inr [[x * a + a / 2, y * b + b / 2, z * c + c / 2]]"
    and "voxmm_to_vox [a, b, c] 3 [[x * a + a / 2, y * b + b / 2, z * c + c / 2]]
           = Inr [[x + 1 / 2 - a / 2, y + 1 / 2 - b / 2, z + 1 / 2 - c / 2]]"
  using assms by (simp_all add: vox_to_voxmm_def voxmm_to_vox_def field_simps)

lemma voxmm_example:
  "voxmm_to_vox [2, 2, 2] 3 [[1, 1, 1], [5, 5, 5]]
     = Inr [[- 1 / 2, - 1 / 2, - 1 / 2], [3 / 2, 3 / 2, 3 / 2]]"
  by (simp add: voxmm_to_vox_def)

lemma write_one_example:
  "write_streamline (TrkWriter_init example_config) ([[0, 0, 0], [2, 2, 2]], [], [])
    = Inr ((TrkWriter_init example_config)
        \<lparr> writer_file := \<lparr> file_header = Some (example_header 0 0 0),
                            file_data = [(2, [[1, 1, 1], [5, 5, 5]], [])] \<rparr>,
          writer_nb_streamlines := 1, writer_nb_points := 2 \<rparr>)"
  by (simp add: example_writer write_streamline_def reshape_scalars_def vox_to_voxmm_def
        example_header_def)


lemma f4_one: "f4 Little [0, 0, 0x80, 0x3F] = 1"
  by (simp add: f4_def f4_value_def to_word_def Let_def)

lemma f4_five: "f4 Little [0, 0, 0xA0, 0x40] = 5"
  by (simp add: f4_def f4_value_def to_word_def Let_def)

lemma chunks_6: "chunks 4 6 bs = [take 4 bs, take 4 (drop 4 bs), take 4 (drop 8 bs),
    take 4 (drop 12 bs), take 4 (drop 16 bs), take 4 (drop 20 bs)]"
  by (simp add: eval_nat_numeral)

lemma ndarray_2_3: "ndarray 2 3 [a, b, c, d, e, g] = [[a, b, c], [d, e, g]]"
  by (simp add: ndarray_def eval_nat_numeral)

lemma read_example:
  "read_streamline (example_reader 0 0 n) (take 4 record_2pts)
      \<lparr>content = replicate 1000 0 @ record_2pts, pos = 1004\<rparr>
    = Inr (([[- 1 / 2, - 1 / 2, - 1 / 2], [3 / 2, 3 / 2, 3 / 2]], [], []),
           \<lparr>content = replicate 1000 0 @ record_2pts, pos = 1028\<rparr>)"
proof -
  have "read_pts_and_scalars (example_reader 0 0 n) 2
          \<lparr>content = replicate 1000 0 @ record_2pts, pos = 1004\<rparr>
        = Inr (([[1, 1, 1], [5, 5, 5]], []),
               \<lparr>content = replicate 1000 0 @ record_2pts, pos = 1028\<rparr>)"
    by (simp add: read_pts_and_scalars_def example_reader_def example_header_def f_read_def
          record_2pts_def chunks_6 ndarray_2_3 f4_one f4_five Let_def)
  moreover have "i4 Little (take 4 record_2pts) = 2"
    by (simp add: record_2pts_def i4_def to_word_def)
  moreover have "length (take 4 record_2pts) = 4"
    by (simp add: record_2pts_def)
  ultimately show ?thesis
    by (simp add: read_streamline_def read_properties_def voxmm_example
          example_reader_def example_header_def)
qed


lemma iter_example:
  "TrkReader_iter (example_reader 0 0 0) (example_file record_2pts)
     = ([([[- 1 / 2, - 1 / 2, - 1 / 2], [3 / 2, 3 / 2, 3 / 2]], [], [])],
        Inr (example_reader 0 0 1, \<lparr>content = replicate 1000 0 @ record_2pts, pos = 2028\<rparr>))"
proof -
  let ?r = "example_reader 0 0 0"
  let ?f = "\<lambda>p. \<lparr>content = replicate 1000 0 @ record_2pts, pos = p\<rparr>"
  let ?s = "([[- 1 / 2, - 1 / 2, - 1 / 2], [3 / 2, 3 / 2, 3 / 2]], [], []) :: streamline"
  have len: "length record_2pts = 28"
    by (simp add: record_2pts_def)
  have r0: "f_read 4 (?f 1000) = (take 4 record_2pts, ?f 1004)"
    using len by (simp add: f_read_def Let_def)
  have ne: "take 4 record_2pts \<noteq> []"
    by (simp add: record_2pts_def)
  have r1: "f_read 4 (?f 1028) = ([], ?f 1028)"
    using len by (simp add: f_read_def Let_def)
  have l1: "iter_loop ?r None 1 (?f 1028) [?s] = ([?s], Inr (1, ?f 1028))"
    by (subst iter_loop.simps) (simp add: r1)
  have l0: "iter_loop ?r None 0 (?f 1000) [] = ([?s], Inr (1, ?f 1028))"
    using l1 ne by (subst iter_loop.simps) (simp add: r0 read_example)
  show ?thesis
    using l0
    by (simp add: TrkReader_iter_def example_file_def f_tell_def f_seek_set_def f_seek_cur_def
          example_reader_def example_header_def)
qed

text \<open>
  Claim C1 (the code differs). With voxel sizes (2, 2, 2), \<open>write\<close> turns the points
  (0, 0, 0), (2, 2, 2) into the record of count 2 and points (1, 1, 1), (5, 5, 5), as the
  claim says. \<open>record_2pts\<close> is that record in bytes. Reading it back, \<open>__iter__\<close> divides
  by the voxel size and then subtracts half the voxel size, which is not the inverse of
  multiplying and then adding half the voxel size: it yields (-1/2, -1/2, -1/2),
  (3/2, 3/2, 3/2). All the numbers are exact in float32.
\<close>

theorem roundtrip_example_shifted:
  "file_data (writer_file (snd (TrkWriter_write (TrkWriter_init example_config)
       [([[0, 0, 0], [2, 2, 2]], [], [])])))
     = [(2, [[1, 1, 1], [5, 5, 5]], [])]
   \<and> i4 Little (take 4 record_2pts) = 2
   \<and> map (f4 Little) (chunks 4 6 (drop 4 record_2pts)) = [1, 1, 1, 5, 5, 5]
   \<and> fst (TrkReader_iter (example_reader 0 0 0) (example_file record_2pts))
     = [([[- 1 / 2, - 1 / 2, - 1 / 2], [3 / 2, 3 / 2, 3 / 2]], [], [])]"
proof -
  have "TrkWriter_write (TrkWriter_init example_config) [([[0, 0, 0], [2, 2, 2]], [], [])]
      = finish_write ((TrkWriter_init example_config)
        \<lparr> writer_file := \<lparr> file_header = Some (example_header 0 0 0),
                            file_data = [(2, [[1, 1, 1], [5, 5, 5]], [])] \<rparr>,
          writer_nb_streamlines := 1, writer_nb_points := 2 \<rparr>)"
    by (simp add: TrkWriter_write_def write_one_example split: prod.splits option.splits)
  then have a: "file_data (writer_file (snd (TrkWriter_write (TrkWriter_init example_config)
       [([[0, 0, 0], [2, 2, 2]], [], [])])))
     = [(2, [[1, 1, 1], [5, 5, 5]], [])]"
    by (simp add: finish_write_def example_writer Let_def)
  have b: "i4 Little (take 4 record_2pts) = 2"
    by (simp add: record_2pts_def i4_def to_word_def)
  have c: "map (f4 Little) (chunks 4 6 (drop 4 record_2pts)) = [1, 1, 1, 5, 5, 5]"
    by (simp add: record_2pts_def chunks_6 f4_one f4_five)
  show ?thesis
    using a b c by (simp add: iter_example)
qed

section \<open>Properties of the header decoder\<close>

lemma length_example_blob: "length (example_blob e v) = 1000"
  by (cases e) (simp_all add: example_blob_def bo_def)

lemma version_field_example_blob: "field 992 4 (example_blob e v) = bo e [v, 0, 0, 0]"
  by (cases e) (simp_all add: example_blob_def bo_def field_def)

lemma hdr_size_field_example_blob: "field 996 4 (example_blob e v) = bo e [0xE8, 3, 0, 0]"
  by (cases e) (simp_all add: example_blob_def bo_def field_def)

lemma voxel_order_field_example_blob: "field 948 4 (example_blob e v) = [0x4C, 0x50, 0x53, 0]"
  by (cases e) (simp_all add: example_blob_def bo_def field_def)

lemma count_field_example_blob: "field 988 4 (example_blob e v) = bo e [0, 0, 0, 0]"
  by (cases e) (simp_all add: example_blob_def bo_def field_def)

lemma i4_bo_same: "i4 e (bo e [a, b, c, d]) = i4 Little [a, b, c, d]"
  by (cases e) (simp_all add: i4_def to_word_def bo_def)

lemma i4_bo_other: "i4 (swapped e) (bo e [a, b, c, d]) = i4 Big [a, b, c, d]"
  by (cases e) (simp_all add: i4_def to_word_def bo_def)


lemma header_dict_fields:
  "version (header_dict d e s) = i4 e (field 992 4 s)"
  "hdr_size (header_dict d e s) = i4 e (field 996 4 s)"
  "nb_streamlines (header_dict d e s) = i4 e (field 988 4 s)"
  "voxel_order (header_dict d e s) = S_value (field 948 4 s)"
  "to_world_space (header_dict header_1_dtype e s) = None"
  "to_world_space (header_dict header_2_dtype e s) = Some (map (f4 e) (chunks 4 16 (field 440 64 s)))"
  by (simp_all add: header_dict_def)

lemma f_read_header:
  "pos f + 1000 \<le> length (content f) \<Longrightarrow>
     f_read 1000 f = (take 1000 (drop (pos f) (content f)), f\<lparr>pos := pos f + 1000\<rparr>)"
  by (simp add: f_read_def Let_def min_def)

text \<open>The version is tested on the record as read in the byte order of the machine.\<close>

lemma TrkReader_init_version_rejected:
  assumes "pos f + 1000 \<le> length (content f)"
    and "i4 native (field 992 4 (take 1000 (drop (pos f) (content f)))) \<noteq> 1"
    and "i4 native (field 992 4 (take 1000 (drop (pos f) (content f)))) \<noteq> 2"
  shows "TrkReader_init native f = Inl HeaderError"
proof -
  let ?s = "take 1000 (drop (pos f) (content f))"
  have "length ?s = 1000" using assms(1) by simp
  then have "?s \<noteq> []" by auto
  with assms \<open>length ?s = 1000\<close> show ?thesis
    by (simp add: TrkReader_init_def f_read_header header_dict_fields Let_def)
qed

lemma TrkReader_init_native:
  assumes "pos f + 1000 \<le> length (content f)"
    and "d = (if i4 native (field 992 4 (take 1000 (drop (pos f) (content f)))) = 1
              then header_1_dtype else header_2_dtype)"
    and "i4 native (field 992 4 (take 1000 (drop (pos f) (content f)))) = 1
         \<or> i4 native (field 992 4 (take 1000 (drop (pos f) (content f)))) = 2"
    and "i4 native (field 996 4 (take 1000 (drop (pos f) (content f)))) = 1000"
    and "S_value (field 948 4 (take 1000 (drop (pos f) (content f)))) \<noteq> []"
  shows "TrkReader_init native f
           = Inr (\<lparr> header = header_dict d native (take 1000 (drop (pos f) (content f))),
                    endianness = native, offset_data = pos f + 1000, warned = False \<rparr>,
                  f\<lparr>pos := pos f + 1000\<rparr>)"
proof -
  let ?s = "take 1000 (drop (pos f) (content f))"
  have "length ?s = 1000" using assms(1) by simp
  then have "?s \<noteq> []" by auto
  with assms \<open>length ?s = 1000\<close> show ?thesis
    by (auto simp: TrkReader_init_def f_read_header header_dict_fields Let_def HEADER_SIZE_def
          f_tell_def)
qed

lemma blob_at_0:
  "take 1000 (drop (pos \<lparr>content = example_blob e v, pos = 0\<rparr>)
                   (content \<lparr>content = example_blob e v, pos = 0\<rparr>)) = example_blob e v"
  by (simp add: length_example_blob)

lemma i4_values:
  "i4 Little [1, 0, 0, 0] = 1" "i4 Little [2, 0, 0, 0] = 2" "i4 Little [0xE8, 3, 0, 0] = 1000"
  "i4 Big [1, 0, 0, 0] = 16777216" "i4 Big [2, 0, 0, 0] = 33554432"
  "i4 Little [0, 0, 0, 0] = 0"
  by (simp_all add: i4_def to_word_def)

text \<open>
  Claim C2 (the code differs). On a little-endian machine the little-endian header
  decodes, with version 2 and header size 1000. The same header with its numbers
  byte-swapped is refused: \<open>__init__\<close> compares the version, read in the byte order of the
  machine, with 1 and 2 before it looks at the header size, and the swapped version 2
  reads 33554432. The swap of the byte order is never reached for such a header. The
  same holds on a big-endian machine for the little-endian header.
\<close>

theorem swapped_header_rejected:
  "(\<exists>r f'. TrkReader_init Little \<lparr>content = example_blob Little 2, pos = 0\<rparr> = Inr (r, f')
        \<and> endianness r = Little \<and> version (header r) = 2 \<and> hdr_size (header r) = 1000)
   \<and> TrkReader_init Little \<lparr>content = example_blob Big 2, pos = 0\<rparr> = Inl HeaderError
   \<and> TrkReader_init Big \<lparr>content = example_blob Little 2, pos = 0\<rparr> = Inl HeaderError"
proof (intro conjI)
  have so: "S_value [0x4C, 0x50, 0x53, 0 :: byte] \<noteq> []"
    by (simp add: S_value_def)
  have "TrkReader_init Little \<lparr>content = example_blob Little 2, pos = 0\<rparr>
      = Inr (\<lparr> header = header_dict header_2_dtype Little (example_blob Little 2),
               endianness = Little, offset_data = 1000, warned = False \<rparr>,
             \<lparr>content = example_blob Little 2, pos = 1000\<rparr>)"
    using TrkReader_init_native [of "\<lparr>content = example_blob Little 2, pos = 0\<rparr>"
        header_2_dtype Little] so
    by (simp only: blob_at_0 version_field_example_blob hdr_size_field_example_blob
          voxel_order_field_example_blob i4_bo_same i4_values)
       (simp add: length_example_blob)
  then show "\<exists>r f'. TrkReader_init Little \<lparr>content = example_blob Little 2, pos = 0\<rparr> = Inr (r, f')
        \<and> endianness r = Little \<and> version (header r) = 2 \<and> hdr_size (header r) = 1000"
    by (simp add: header_dict_fields version_field_example_blob hdr_size_field_example_blob
          i4_bo_same i4_values)
next
  show "TrkReader_init Little \<lparr>content = example_blob Big 2, pos = 0\<rparr> = Inl HeaderError"
    using TrkReader_init_version_rejected [of "\<lparr>content = example_blob Big 2, pos = 0\<rparr>" Little]
      i4_bo_other [of Big 2 0 0 0]
    by (simp only: blob_at_0 version_field_example_blob i4_values swapped.simps)
       (simp add: length_example_blob)
next
  show "TrkReader_init Big \<lparr>content = example_blob Little 2, pos = 0\<rparr> = Inl HeaderError"
    using TrkReader_init_version_rejected [of "\<lparr>content = example_blob Little 2, pos = 0\<rparr>" Big]
      i4_bo_other [of Little 2 0 0 0]
    by (simp only: blob_at_0 version_field_example_blob i4_values swapped.simps)
       (simp add: length_example_blob)
qed

lemma TrkReader_init_version_1:
  "TrkReader_init Little \<lparr>content = example_blob Little 1, pos = 0\<rparr>
      = Inr (\<lparr> header = header_dict header_1_dtype Little (example_blob Little 1),
               endianness = Little, offset_data = 1000, warned = False \<rparr>,
             \<lparr>content = example_blob Little 1, pos = 1000\<rparr>)"
proof -
  have so: "S_value [0x4C, 0x50, 0x53, 0 :: byte] \<noteq> []"
    by (simp add: S_value_def)
  show ?thesis
    using TrkReader_init_native [of "\<lparr>content = example_blob Little 1, pos = 0\<rparr>"
        header_1_dtype Little] so
    by (simp only: blob_at_0 version_field_example_blob hdr_size_field_example_blob
          voxel_order_field_example_blob i4_bo_same i4_values)
       (simp add: length_example_blob)
qed
lemma load_version_1_KeyError:
  "TrkReader_init native f = Inr (r, f') \<Longrightarrow> to_world_space (header r) = None
     \<Longrightarrow> TrkFile_load native allclose f ref lazy_load = Inl KeyError"
  by (simp add: TrkFile_load_def)

text \<open>
  Claim C3 (the code differs). The version-1 header decodes through the version-1
  layout, and its dictionary has no \<open>to_world_space\<close> key. \<open>TrkFile.load\<close> looks that key
  up without a test, for any reference and in both modes: it ends with \<open>KeyError\<close>
  and returns no container.
\<close>

theorem load_version_1_raises:
  "(\<exists>r f'. TrkReader_init Little \<lparr>content = example_blob Little 1, pos = 0\<rparr> = Inr (r, f')
        \<and> version (header r) = 1 \<and> hdr_size (header r) = 1000
        \<and> to_world_space (header r) = None)
   \<and> TrkFile_load Little allclose \<lparr>content = example_blob Little 1, pos = 0\<rparr> ref lazy_load
       = Inl KeyError"
  by (simp add: TrkFile_load_def TrkReader_init_version_1 header_dict_fields
        version_field_example_blob hdr_size_field_example_blob i4_bo_same i4_values)

section \<open>Sniffing\<close>

text \<open>
  With at least 5 bytes after the cursor, \<open>is_correct_format\<close> compares them with the
  magic number and leaves the cursor where it was.
\<close>

lemma is_correct_format_enough_bytes:
  "pos f + 5 \<le> length (content f) \<Longrightarrow>
     is_correct_format f = Inr (take 5 (drop (pos f) (content f)) = MAGIC_NUMBER, f)"
  by (simp add: is_correct_format_def f_read_def f_seek_cur_def Let_def min_def)

text \<open>
  Claim C9 (the code differs). The cursor goes back by 5 bytes however many were read.
  A source of 8 bytes with the cursor at 5: 3 bytes are read, the cursor goes to 8 and
  then back to 3, not to 5. On a file of 3 bytes read from its start the seek goes
  before the start and the call ends with an exception instead of an answer.
\<close>

theorem sniff_moves_cursor_example:
  "is_correct_format \<lparr>content = [0x54, 0x52, 0x41, 0x43, 0x4B, 0x54, 0x52, 0x41], pos = 5\<rparr>
     = Inr (False, \<lparr>content = [0x54, 0x52, 0x41, 0x43, 0x4B, 0x54, 0x52, 0x41], pos = 3\<rparr>)"
  by (simp add: is_correct_format_def f_read_def f_seek_cur_def Let_def MAGIC_NUMBER_def)

lemma sniff_short_file_raises:
  "is_correct_format \<lparr>content = [0x54, 0x52, 0x41], pos = 0\<rparr> = Inl OSError"
  by (simp add: is_correct_format_def f_read_def f_seek_cur_def Let_def)

end
